theory Spec2Isabelle
  imports Complex_Main "HOL-Library.Multiset"
begin

section \<open>Numbers\<close>

text \<open>
  A TypeScript \<open>number\<close> that is read from the JSON response (a prediction's
  \<open>x\<close>, \<open>y\<close>, \<open>width\<close>, \<open>height\<close>, \<open>confidence\<close>, the image's
  \<open>width\<close> and \<open>height\<close>) is a finite value and is a \<open>real\<close> here.
  Arithmetic on finite values is exact: the rounding and the overflow of IEEE doubles
  are not part of the model, and neither is the sign of zero.

  The result of a division can leave the finite values (\<open>1 / 0\<close>, \<open>0 / 0\<close>), so
  everything computed from a quotient is a \<open>jsnum\<close>, with the special values of
  the language.
\<close>

datatype jsnum = Fin real | PosInf | NegInf | NaN

text \<open>\<open>a + b\<close> on numbers.\<close>

fun js_add :: "jsnum \<Rightarrow> jsnum \<Rightarrow> jsnum" where
  "js_add NaN b = NaN"
| "js_add a NaN = NaN"
| "js_add (Fin a) (Fin b) = Fin (a + b)"
| "js_add PosInf NegInf = NaN"
| "js_add NegInf PosInf = NaN"
| "js_add PosInf b = PosInf"
| "js_add NegInf b = NegInf"
| "js_add (Fin a) b = b"

text \<open>The infinity with the sign of a non-zero finite value.\<close>

definition inf_of_sign :: "real \<Rightarrow> jsnum" where
  "inf_of_sign r = (if 0 < r then PosInf else NegInf)"

text \<open>\<open>a * b\<close> on numbers: zero times an infinity is \<open>NaN\<close>.\<close>

fun js_mul :: "jsnum \<Rightarrow> jsnum \<Rightarrow> jsnum" where
  "js_mul NaN b = NaN"
| "js_mul a NaN = NaN"
| "js_mul (Fin a) (Fin b) = Fin (a * b)"
| "js_mul (Fin a) PosInf = (if a = 0 then NaN else inf_of_sign a)"
| "js_mul (Fin a) NegInf = (if a = 0 then NaN else inf_of_sign (- a))"
| "js_mul PosInf (Fin b) = (if b = 0 then NaN else inf_of_sign b)"
| "js_mul NegInf (Fin b) = (if b = 0 then NaN else inf_of_sign (- b))"
| "js_mul PosInf PosInf = PosInf"
| "js_mul NegInf NegInf = PosInf"
| "js_mul PosInf NegInf = NegInf"
| "js_mul NegInf PosInf = NegInf"

text \<open>
  \<open>a / b\<close> on numbers: a division by zero does not raise, it gives \<open>NaN\<close> for
  \<open>0 / 0\<close> and an infinity otherwise (the zero divisor is taken as \<open>+0\<close>).
\<close>

fun js_div :: "jsnum \<Rightarrow> jsnum \<Rightarrow> jsnum" where
  "js_div NaN b = NaN"
| "js_div a NaN = NaN"
| "js_div (Fin a) (Fin b) =
     (if b = 0 then (if a = 0 then NaN else inf_of_sign a) else Fin (a / b))"
| "js_div (Fin a) PosInf = Fin 0"
| "js_div (Fin a) NegInf = Fin 0"
| "js_div PosInf (Fin b) = (if 0 \<le> b then PosInf else NegInf)"
| "js_div NegInf (Fin b) = (if 0 \<le> b then NegInf else PosInf)"
| "js_div a b = NaN"

text \<open>\<open>Math.min\<close> and \<open>Math.max\<close> of two numbers: \<open>NaN\<close> if either is.\<close>

fun Math_min :: "jsnum \<Rightarrow> jsnum \<Rightarrow> jsnum" where
  "Math_min NaN b = NaN"
| "Math_min a NaN = NaN"
| "Math_min NegInf b = NegInf"
| "Math_min a NegInf = NegInf"
| "Math_min PosInf b = b"
| "Math_min a PosInf = a"
| "Math_min (Fin a) (Fin b) = Fin (min a b)"

fun Math_max :: "jsnum \<Rightarrow> jsnum \<Rightarrow> jsnum" where
  "Math_max NaN b = NaN"
| "Math_max a NaN = NaN"
| "Math_max PosInf b = PosInf"
| "Math_max a PosInf = PosInf"
| "Math_max NegInf b = b"
| "Math_max a NegInf = a"
| "Math_max (Fin a) (Fin b) = Fin (max a b)"

text \<open>\<open>a <= b\<close> on numbers: false as soon as one side is \<open>NaN\<close>.\<close>

fun js_le :: "jsnum \<Rightarrow> jsnum \<Rightarrow> bool" where
  "js_le NaN b = False"
| "js_le a NaN = False"
| "js_le NegInf b = True"
| "js_le a PosInf = True"
| "js_le (Fin a) (Fin b) = (a \<le> b)"
| "js_le a b = False"

text \<open>
  \<open>Math.round\<close> of a finite value: the nearest integer, a tie going up.
\<close>

definition Math_round :: "real \<Rightarrow> int" where
  "Math_round r = \<lfloor>r + 1 / 2\<rfloor>"

section \<open>Strings\<close>

text \<open>
  A string is a list of characters. Class labels are taken to be ASCII, so the case
  conversions below change the letters \<open>A\<close> to \<open>Z\<close> (or \<open>a\<close> to \<open>z\<close>) and
  leave every other character as it is.
\<close>

definition lower_char :: "char \<Rightarrow> char" where
  "lower_char c =
     (let n = (of_char c :: nat) in if 65 \<le> n \<and> n \<le> 90 then char_of (n + 32) else c)"

definition upper_char :: "char \<Rightarrow> char" where
  "upper_char c =
     (let n = (of_char c :: nat) in if 97 \<le> n \<and> n \<le> 122 then char_of (n - 32) else c)"

definition toLowerCase :: "string \<Rightarrow> string" where
  "toLowerCase s = map lower_char s"

definition toUpperCase :: "string \<Rightarrow> string" where
  "toUpperCase s = map upper_char s"

text \<open>\<open>s.startsWith(t)\<close>, used to define \<open>s.includes(t)\<close>.\<close>

fun startsWith :: "string \<Rightarrow> string \<Rightarrow> bool" where
  "startsWith s [] = True"
| "startsWith [] (d # t) = False"
| "startsWith (c # s) (d # t) = (c = d \<and> startsWith s t)"

text \<open>\<open>s.includes(t)\<close>: \<open>t\<close> occurs in \<open>s\<close> as a contiguous substring.\<close>

fun includes_str :: "string \<Rightarrow> string \<Rightarrow> bool" where
  "includes_str [] t = (t = [])"
| "includes_str (c # s) t = (startsWith (c # s) t \<or> includes_str s t)"

text \<open>\<open>s.replace(/-/g, ' ')\<close>: every hyphen becomes a space.\<close>

definition replace_hyphens :: "string \<Rightarrow> string" where
  "replace_hyphens s = map (\<lambda>c. if c = CHR ''-'' then CHR '' '' else c) s"

text \<open>The decimal digits of a natural number, as the language prints an integer.\<close>

fun nat_to_string :: "nat \<Rightarrow> string" where
  "nat_to_string n =
     (if n < 10 then [''0123456789'' ! n]
      else nat_to_string (n div 10) @ [''0123456789'' ! (n mod 10)])"

declare nat_to_string.simps [simp del]

text \<open>An integer inside a template literal (\<open>-0\<close> prints as \<open>0\<close>).\<close>

definition int_to_string :: "int \<Rightarrow> string" where
  "int_to_string i =
     (if i < 0 then ''-'' @ nat_to_string (nat (- i)) else nat_to_string (nat i))"

text \<open>
  \<open>r.toFixed(1)\<close> for a finite \<open>r\<close> below \<open>10^21\<close> in absolute value: the integer
  \<open>n\<close> with \<open>n / 10\<close> nearest to \<open>|r|\<close> (the larger one on a tie), printed with
  its last digit after the point, and the sign in front when \<open>r < 0\<close>.
\<close>

definition toFixed1_abs :: "real \<Rightarrow> string" where
  "toFixed1_abs r =
     (let n = nat \<lfloor>r * 10 + 1 / 2\<rfloor>
      in nat_to_string (n div 10) @ ''.'' @ nat_to_string (n mod 10))"

definition toFixed1 :: "real \<Rightarrow> string" where
  "toFixed1 r = (if r < 0 then ''-'' @ toFixed1_abs (- r) else toFixed1_abs r)"

section \<open>Types\<close>

record BoundingBox =
  ymin :: jsnum
  xmin :: jsnum
  ymax :: jsnum
  xmax :: jsnum

datatype verdict_status = Safe | Contaminated | Inconclusive | No_Fish_Detected

text \<open>
  \<open>DetectionResult\<close>, the verdict. The three fields that the interface marks optional
  are options.
\<close>

record DetectionResult =
  status :: verdict_status
  confidence :: real
  description :: string
  guidance :: string
  timestamp :: string
  image :: string
  location :: "string option"
  primarySymptom :: "string option"
  boundingBoxes :: "BoundingBox list option"

datatype DetectionStatus = IDLE | ANALYZING | SUCCESS | ERROR

text \<open>
  One element of \<open>data.predictions\<close>, as the detection service returns it and as
  \<open>analyzeImage\<close> reads it: the fields \<open>x\<close>, \<open>y\<close>, \<open>width\<close>, \<open>height\<close>,
  \<open>class\<close> and \<open>confidence\<close>, here with the prefix \<open>pred_\<close>.
\<close>

record prediction =
  pred_x :: real
  pred_y :: real
  pred_width :: real
  pred_height :: real
  pred_class :: string
  pred_confidence :: real

text \<open>
  The parsed response body \<open>data\<close>: \<open>data.predictions\<close> and \<open>data.image\<close> with its
  \<open>width\<close> and \<open>height\<close>. \<open>None\<close> is a field that is absent.
\<close>

record image_info =
  image_width :: "real option"
  image_height :: "real option"

record response_data =
  data_predictions :: "prediction list option"
  data_image :: "image_info option"

text \<open>An error object; the code reads nothing but its message.\<close>

datatype js_error = Error (message: string)

text \<open>
  The response of \<open>fetch\<close>: \<open>response.ok\<close>, \<open>response.statusText\<close> and what
  \<open>response.json()\<close> gives, which is an error when the body is not JSON.
\<close>

record response =
  ok :: bool
  statusText :: string
  json :: "js_error + response_data"

text \<open>The call of \<open>fetch\<close> either rejects (a network failure) or resolves.\<close>

datatype fetch_outcome = Rejected js_error | Resolved response

text \<open>
  The state of the component \<open>App\<close>: the state variables \<open>status\<close>, \<open>result\<close>,
  \<open>error\<close>, \<open>lastImg\<close> and \<open>isFlashOn\<close>; \<open>None\<close> is \<open>null\<close>.
\<close>

record app_state =
  app_status :: DetectionStatus
  app_result :: "DetectionResult option"
  app_error :: "string option"
  lastImg :: "string option"
  isFlashOn :: bool

section \<open>Helper functions\<close>

definition normalizeCoordinates :: "prediction \<Rightarrow> real \<Rightarrow> real \<Rightarrow> BoundingBox" where
  "normalizeCoordinates pred imgWidth imgHeight =
     (let xmin' = js_mul (js_div (Fin (pred_x pred - pred_width pred / 2)) (Fin imgWidth)) (Fin 1000);
          xmax' = js_mul (js_div (Fin (pred_x pred + pred_width pred / 2)) (Fin imgWidth)) (Fin 1000);
          ymin' = js_mul (js_div (Fin (pred_y pred - pred_height pred / 2)) (Fin imgHeight)) (Fin 1000);
          ymax' = js_mul (js_div (Fin (pred_y pred + pred_height pred / 2)) (Fin imgHeight)) (Fin 1000)
      in \<lparr> ymin = Math_max (Fin 0) (Math_min (Fin 1000) ymin'),
           xmin = Math_max (Fin 0) (Math_min (Fin 1000) xmin'),
           ymax = Math_max (Fin 0) (Math_min (Fin 1000) ymax'),
           xmax = Math_max (Fin 0) (Math_min (Fin 1000) xmax') \<rparr>)"

text \<open>
  \<open>predictions.sort((a, b) => b.confidence - a.confidence)\<close>: the stable sort of the
  language, by descending confidence.
\<close>

definition sort_by_confidence :: "prediction list \<Rightarrow> prediction list" where
  "sort_by_confidence ps = sort_key (\<lambda>p. - pred_confidence p) ps"

text \<open>\<open>v || 1\<close> for an optional number: an absent field and zero are falsy.\<close>

definition or_one :: "real option \<Rightarrow> real" where
  "or_one v = (case v of None \<Rightarrow> 1 | Some w \<Rightarrow> if w = 0 then 1 else w)"

text \<open>\<open>data.image?.width\<close> and \<open>data.image?.height\<close>.\<close>

definition image_width_of :: "response_data \<Rightarrow> real option" where
  "image_width_of data = (case data_image data of None \<Rightarrow> None | Some i \<Rightarrow> image_width i)"

definition image_height_of :: "response_data \<Rightarrow> real option" where
  "image_height_of data = (case data_image data of None \<Rightarrow> None | Some i \<Rightarrow> image_height i)"

text \<open>The percentage in the description: \<open>Math.round(bestPred.confidence * 100)\<close>.\<close>

definition rounded_percent :: "prediction \<Rightarrow> string" where
  "rounded_percent p = int_to_string (Math_round (pred_confidence p * 100))"

text \<open>
  The body of the \<open>try\<close> block of \<open>analyzeImage\<close>. The request is not modelled: the
  outcome of \<open>fetch\<close> is an argument, and so is \<open>now\<close>, the formatted time of the
  call. \<open>Inl\<close> is the error thrown inside the block.

  The sort is in place: after it \<open>predictions\<close> is the sorted array, and this is the
  array that the bounding boxes are mapped from. \<open>bestPred\<close> is \<open>null\<close> exactly
  when \<open>hasDetections\<close> is false, so the tests of the source on the one or the other
  are the same case distinction here.
\<close>

definition analyzeImage_try :: "string \<Rightarrow> string \<Rightarrow> fetch_outcome \<Rightarrow> js_error + DetectionResult" where
  "analyzeImage_try base64Image now outcome =
     (case outcome of
        Rejected e \<Rightarrow> Inl e
      | Resolved response \<Rightarrow>
          if \<not> ok response then Inl (Error (''Roboflow API error: '' @ statusText response))
          else
            (case json response of
               Inl e \<Rightarrow> Inl e
             | Inr data \<Rightarrow>
                 (let received = (case data_predictions data of None \<Rightarrow> [] | Some ps \<Rightarrow> ps);
                      imgWidth = or_one (image_width_of data);
                      imgHeight = or_one (image_height_of data);
                      hasDetections = (length received > 0);
                      predictions = (if hasDetections then sort_by_confidence received else received);
                      bestPred = (if hasDetections then Some (hd predictions) else None);
                      status' =
                        (case bestPred of
                           None \<Rightarrow> No_Fish_Detected
                         | Some b \<Rightarrow>
                             if includes_str (toLowerCase (pred_class b)) ''healthy''
                             then Safe else Contaminated)
                  in Inr \<lparr>
                    status = status',
                    confidence = (case bestPred of Some b \<Rightarrow> pred_confidence b | None \<Rightarrow> 0),
                    description =
                      (case bestPred of
                         Some b \<Rightarrow>
                           if status' = Safe
                           then ''The AI model identified the sample as '' @ pred_class b @ '' with ''
                                @ rounded_percent b @ ''% confidence. No HAB indicators were found.''
                           else ''Your custom model detected '' @ pred_class b @ '' with ''
                                @ rounded_percent b
                                @ ''% certainty. This indicates a high risk of HAB contamination.''
                       | None \<Rightarrow> ''No fish or HAB indicators were detected in the frame. Please ensure the sample is centered and well-lit.''),
                    guidance =
                      (case bestPred of
                         Some b \<Rightarrow>
                           if status' = Safe
                           then ''Sample appears normal. However, always stay updated with the latest BFAR Red Tide Bulletins before consumption.''
                           else ''DO NOT CONSUME. Report this sample to the nearest BFAR or LLDA station immediately.''
                       | None \<Rightarrow> ''Please try scanning again. Position the fish clearly in the center of the frame.''),
                    timestamp = now,
                    image = base64Image,
                    location = Some ''Binangonan, Rizal'',
                    primarySymptom =
                      (case bestPred of
                         Some b \<Rightarrow> Some (toUpperCase (replace_hyphens (pred_class b)))
                       | None \<Rightarrow> Some ''NONE''),
                    boundingBoxes =
                      Some (map (\<lambda>p. normalizeCoordinates p imgWidth imgHeight) predictions)
                  \<rparr>)))"

text \<open>
  \<open>analyzeImage\<close>: whatever is thrown inside the \<open>try\<close> block is caught, written to
  the console and replaced by one fixed error.
\<close>

definition detection_failed :: js_error where
  "detection_failed = Error ''Detection failed. Please check your Roboflow API configuration.''"

definition analyzeImage :: "string \<Rightarrow> string \<Rightarrow> fetch_outcome \<Rightarrow> js_error + DetectionResult" where
  "analyzeImage base64Image now outcome =
     (case analyzeImage_try base64Image now outcome of
        Inl e \<Rightarrow> Inl detection_failed
      | Inr r \<Rightarrow> Inr r)"

section \<open>The response body as the runtime reads it\<close>

text \<open>
  \<open>response_data\<close> above is a body of the documented shape. What
  \<open>response.json()\<close> gives can be any JSON value, and \<open>analyzeImage\<close> reads it
  without a check. The types below keep the shapes on which the code takes different
  paths; \<open>analyzeImage_json\<close> is \<open>analyzeImage\<close> on such a body.

  An element of the predictions array: its four box fields and its confidence are
  numbers, its \<open>class\<close> is \<open>None\<close> when it is absent or not a string.
\<close>

record json_entry =
  entry_x :: real
  entry_y :: real
  entry_width :: real
  entry_height :: real
  entry_class :: "string option"
  entry_confidence :: real

text \<open>
  \<open>data.predictions\<close>: a falsy value (the field is absent, or is \<open>null\<close>,
  \<open>false\<close>, \<open>0\<close> or the empty string), a truthy value that is not an array, or an
  array.
\<close>

datatype json_predictions = Falsy | Not_an_array | Entries "json_entry list"

text \<open>
  The parsed body: \<open>null\<close>, or a value with its \<open>predictions\<close> and its \<open>image\<close>
  (a number, a string, a boolean or an array has neither field, as an object without
  them).
\<close>

datatype json_body = Null | Body json_predictions "image_info option"

record json_response =
  json_ok :: bool
  json_statusText :: string
  json_parsed :: "js_error + json_body"

datatype json_fetch_outcome = Json_rejected js_error | Json_resolved json_response

text \<open>
  An error raised by the runtime (reading a property of \<open>null\<close>, calling what is not a
  function). Its message depends on the engine and stands here as the name of the error;
  \<open>analyzeImage\<close> never reads it.
\<close>

definition type_error :: js_error where
  "type_error = Error ''TypeError''"

text \<open>
  The argument that \<open>normalizeCoordinates\<close> gets for an element: the normalizer reads
  the four box fields only.
\<close>

definition entry_box :: "json_entry \<Rightarrow> prediction" where
  "entry_box e =
     \<lparr> pred_x = entry_x e, pred_y = entry_y e, pred_width = entry_width e,
       pred_height = entry_height e,
       pred_class = (case entry_class e of None \<Rightarrow> [] | Some c \<Rightarrow> c),
       pred_confidence = entry_confidence e \<rparr>"

definition sort_entries :: "json_entry list \<Rightarrow> json_entry list" where
  "sort_entries es = sort_key (\<lambda>e. - entry_confidence e) es"

text \<open>
  The body of the \<open>try\<close> block on such a body. \<open>data.predictions\<close> on \<open>null\<close>
  throws (line 96). A truthy value that is not an array has no \<open>sort\<close> and no
  \<open>map\<close>, so the call at line 101 or at line 124 throws. \<open>bestPred.class.toLowerCase()\<close>
  throws when the class of the best prediction is not a string (line 105); the class of
  any other element is never read.
\<close>

definition analyzeImage_json_try ::
  "string \<Rightarrow> string \<Rightarrow> json_fetch_outcome \<Rightarrow> js_error + DetectionResult" where
  "analyzeImage_json_try base64Image now outcome =
     (case outcome of
        Json_rejected e \<Rightarrow> Inl e
      | Json_resolved response \<Rightarrow>
          if \<not> json_ok response
          then Inl (Error (''Roboflow API error: '' @ json_statusText response))
          else
            (case json_parsed response of
               Inl e \<Rightarrow> Inl e
             | Inr Null \<Rightarrow> Inl type_error
             | Inr (Body Not_an_array img) \<Rightarrow> Inl type_error
             | Inr (Body field img) \<Rightarrow>
                 (let received = (case field of Entries es \<Rightarrow> es | _ \<Rightarrow> []);
                      imgWidth = or_one (case img of None \<Rightarrow> None | Some i \<Rightarrow> image_width i);
                      imgHeight = or_one (case img of None \<Rightarrow> None | Some i \<Rightarrow> image_height i);
                      hasDetections = (length received > 0);
                      predictions = (if hasDetections then sort_entries received else received);
                      bestPred = (if hasDetections then Some (hd predictions) else None);
                      boxes = map (\<lambda>p. normalizeCoordinates (entry_box p) imgWidth imgHeight) predictions
                  in case bestPred of
                       None \<Rightarrow>
                         Inr \<lparr>
                           status = No_Fish_Detected,
                           confidence = 0,
                           description = ''No fish or HAB indicators were detected in the frame. Please ensure the sample is centered and well-lit.'',
                           guidance = ''Please try scanning again. Position the fish clearly in the center of the frame.'',
                           timestamp = now,
                           image = base64Image,
                           location = Some ''Binangonan, Rizal'',
                           primarySymptom = Some ''NONE'',
                           boundingBoxes = Some boxes \<rparr>
                     | Some b \<Rightarrow>
                         (case entry_class b of
                            None \<Rightarrow> Inl type_error
                          | Some cls \<Rightarrow>
                              (let status' =
                                     (if includes_str (toLowerCase cls) ''healthy''
                                      then Safe else Contaminated)
                               in Inr \<lparr>
                                 status = status',
                                 confidence = entry_confidence b,
                                 description =
                                   (if status' = Safe
                                    then ''The AI model identified the sample as '' @ cls @ '' with ''
                                         @ rounded_percent (entry_box b)
                                         @ ''% confidence. No HAB indicators were found.''
                                    else ''Your custom model detected '' @ cls @ '' with ''
                                         @ rounded_percent (entry_box b)
                                         @ ''% certainty. This indicates a high risk of HAB contamination.''),
                                 guidance =
                                   (if status' = Safe
                                    then ''Sample appears normal. However, always stay updated with the latest BFAR Red Tide Bulletins before consumption.''
                                    else ''DO NOT CONSUME. Report this sample to the nearest BFAR or LLDA station immediately.''),
                                 timestamp = now,
                                 image = base64Image,
                                 location = Some ''Binangonan, Rizal'',
                                 primarySymptom = Some (toUpperCase (replace_hyphens cls)),
                                 boundingBoxes = Some boxes \<rparr>)))))"

definition analyzeImage_json ::
  "string \<Rightarrow> string \<Rightarrow> json_fetch_outcome \<Rightarrow> js_error + DetectionResult" where
  "analyzeImage_json base64Image now outcome =
     (case analyzeImage_json_try base64Image now outcome of
        Inl e \<Rightarrow> Inl detection_failed
      | Inr r \<Rightarrow> Inr r)"

text \<open>A body of the documented shape, as the runtime reads it.\<close>

definition of_prediction :: "prediction \<Rightarrow> json_entry" where
  "of_prediction p =
     \<lparr> entry_x = pred_x p, entry_y = pred_y p, entry_width = pred_width p,
       entry_height = pred_height p, entry_class = Some (pred_class p),
       entry_confidence = pred_confidence p \<rparr>"

definition of_response :: "response \<Rightarrow> json_response" where
  "of_response r =
     \<lparr> json_ok = ok r, json_statusText = statusText r,
       json_parsed =
         (case json r of
            Inl e \<Rightarrow> Inl e
          | Inr d \<Rightarrow>
              Inr (Body (case data_predictions d of
                           None \<Rightarrow> Falsy
                         | Some ps \<Rightarrow> Entries (map of_prediction ps))
                        (data_image d))) \<rparr>"

definition of_outcome :: "fetch_outcome \<Rightarrow> json_fetch_outcome" where
  "of_outcome outcome =
     (case outcome of Rejected e \<Rightarrow> Json_rejected e | Resolved r \<Rightarrow> Json_resolved (of_response r))"

section \<open>Result display and report\<close>

text \<open>The confidence as \<open>ResultDisplay\<close> shows it: \<open>(result.confidence * 100).toFixed(1)\<close> and a percent sign.\<close>

definition confidence_display :: "DetectionResult \<Rightarrow> string" where
  "confidence_display result = toFixed1 (confidence result * 100) @ ''%''"

text \<open>
  \<open>getZoomStyle\<close>: the two percentages of \<open>transformOrigin\<close>, taken from the first
  bounding box when there is one.
\<close>

definition getZoomStyle :: "DetectionResult \<Rightarrow> jsnum \<times> jsnum" where
  "getZoomStyle result =
     (if status result = No_Fish_Detected then (Fin 50, Fin 50)
      else
        (case boundingBoxes result of
           None \<Rightarrow> (Fin 50, Fin 50)
         | Some [] \<Rightarrow> (Fin 50, Fin 50)
         | Some (box # rest) \<Rightarrow>
             (js_div (js_add (xmin box) (xmax box)) (Fin 20),
              js_div (js_add (ymin box) (ymax box)) (Fin 20))))"

text \<open>A status and an optional string inside a template literal.\<close>

fun status_text :: "verdict_status \<Rightarrow> string" where
  "status_text Safe = ''Safe''"
| "status_text Contaminated = ''Contaminated''"
| "status_text Inconclusive = ''Inconclusive''"
| "status_text No_Fish_Detected = ''No Fish Detected''"

definition optional_text :: "string option \<Rightarrow> string" where
  "optional_text v = (case v of None \<Rightarrow> ''undefined'' | Some s \<Rightarrow> s)"

text \<open>
  \<open>downloadReport\<close>: the text of the report, \<open>None\<close> when there is no result (the
  function returns at once). The download itself is not modelled.
\<close>

definition downloadReport :: "app_state \<Rightarrow> string option" where
  "downloadReport s =
     (case app_result s of
        None \<Rightarrow> None
      | Some result \<Rightarrow>
          Some (''LIYA - HAB DETECTION REPORT\<newline>==========================\<newline>Date/Time: ''
            @ timestamp result
            @ ''\<newline>Location: '' @ optional_text (location result)
            @ ''\<newline>Overall Status: '' @ status_text (status result)
            @ ''\<newline>Confidence: '' @ toFixed1 (confidence result * 100)
            @ ''%\<newline>\<newline>INDICATORS DETECTED:\<newline>- Primary Indicator: ''
            @ optional_text (primarySymptom result)
            @ ''\<newline>- Description: '' @ description result
            @ ''\<newline>\<newline>GUIDANCE:\<newline>- '' @ guidance result
            @ ''\<newline>\<newline>CONTACTS:\<newline>- LLDA: (02) 8376-4039\<newline>- BFAR: (049) 536-8200\<newline>==========================''))"

section \<open>The application state\<close>

definition initial_state :: app_state where
  "initial_state =
     \<lparr> app_status = IDLE, app_result = None, app_error = None, lastImg = None,
       isFlashOn = False \<rparr>"

text \<open>\<open>handleCapture\<close> up to the \<open>await\<close>.\<close>

definition handleCapture_start :: "string \<Rightarrow> app_state \<Rightarrow> app_state" where
  "handleCapture_start imageData s =
     s\<lparr> lastImg := Some imageData, app_status := ANALYZING, app_error := None \<rparr>"

text \<open>
  \<open>handleCapture\<close> after the \<open>await\<close>, with what \<open>analyzeImage\<close> gave. An error
  with an empty message gets the fallback text (\<open>err.message || ...\<close>).
\<close>

definition handleCapture_finish :: "js_error + DetectionResult \<Rightarrow> app_state \<Rightarrow> app_state" where
  "handleCapture_finish analysis s =
     (case analysis of
        Inr analysisResult \<Rightarrow> s\<lparr> app_result := Some analysisResult, app_status := SUCCESS \<rparr>
      | Inl err \<Rightarrow>
          s\<lparr> app_error :=
               Some (if message err = [] then ''An unexpected error occurred during analysis.''
                     else message err),
             app_status := ERROR \<rparr>)"

definition handleCapture :: "string \<Rightarrow> string \<Rightarrow> fetch_outcome \<Rightarrow> app_state \<Rightarrow> app_state" where
  "handleCapture imageData now outcome s =
     handleCapture_finish (analyzeImage imageData now outcome) (handleCapture_start imageData s)"

definition resetDetection :: "app_state \<Rightarrow> app_state" where
  "resetDetection s = s\<lparr> app_result := None, app_status := IDLE, app_error := None \<rparr>"

section \<open>Facts about the helper functions\<close>

text \<open>
  The sort returns the received predictions, rearranged, in descending order of
  confidence, and keeps the received order among predictions of equal confidence.
\<close>

lemma sort_by_confidence_set: "set (sort_by_confidence ps) = set ps"
  by (simp add: sort_by_confidence_def)

lemma sort_by_confidence_length: "length (sort_by_confidence ps) = length ps"
  by (simp add: sort_by_confidence_def)

lemma sort_by_confidence_mset: "mset (sort_by_confidence ps) = mset ps"
  by (simp add: sort_by_confidence_def)

lemma sort_by_confidence_descending:
  "sorted_wrt (\<lambda>a b. pred_confidence b \<le> pred_confidence a) (sort_by_confidence ps)"
proof -
  have "sorted (map (\<lambda>p. - pred_confidence p) (sort_by_confidence ps))"
    by (simp add: sort_by_confidence_def)
  then show ?thesis
    by (simp add: sorted_wrt_map)
qed

lemma sort_by_confidence_stable:
  "filter (\<lambda>p. pred_confidence p = c) (sort_by_confidence ps)
     = filter (\<lambda>p. pred_confidence p = c) ps"
  using sort_key_stable [of "\<lambda>p. - pred_confidence p" "- c" ps]
  by (simp add: sort_by_confidence_def)

lemma sort_by_confidence_Cons:
  assumes br: "sort_by_confidence ps = b # rest"
  shows "b \<in> set ps"
    and "\<forall>p \<in> set ps. pred_confidence p \<le> pred_confidence b"
    and "b = hd (filter (\<lambda>p. pred_confidence p = pred_confidence b) ps)"
proof -
  have s: "set ps = insert b (set rest)"
    using sort_by_confidence_set [of ps] by (simp add: br)
  show "b \<in> set ps"
    by (simp add: s)
  have "\<forall>p \<in> set rest. pred_confidence p \<le> pred_confidence b"
    using sort_by_confidence_descending [of ps] by (simp add: br)
  then show "\<forall>p \<in> set ps. pred_confidence p \<le> pred_confidence b"
    by (simp add: s)
  have "filter (\<lambda>p. pred_confidence p = pred_confidence b) ps
          = filter (\<lambda>p. pred_confidence p = pred_confidence b) (b # rest)"
    using sort_by_confidence_stable [of "pred_confidence b" ps] by (simp only: br)
  then show "b = hd (filter (\<lambda>p. pred_confidence p = pred_confidence b) ps)"
    by simp
qed

lemma sort_by_confidence_nonempty:
  assumes "ps \<noteq> []"
  shows "sort_by_confidence ps = hd (sort_by_confidence ps) # tl (sort_by_confidence ps)"
proof -
  have "sort_by_confidence ps \<noteq> []"
    using assms sort_by_confidence_length [of ps] by (metis length_0_conv)
  then show ?thesis by simp
qed

text \<open>The verdict for a successful response with a non-empty prediction list.\<close>

lemma analyzeImage_detections:
  assumes "ok r" "json r = Inr d" "data_predictions d = Some ps" "ps \<noteq> []"
  shows "analyzeImage base64Image now (Resolved r) =
     Inr \<lparr> status =
             (if includes_str (toLowerCase (pred_class (hd (sort_by_confidence ps)))) ''healthy''
              then Safe else Contaminated),
           confidence = pred_confidence (hd (sort_by_confidence ps)),
           description =
             (if includes_str (toLowerCase (pred_class (hd (sort_by_confidence ps)))) ''healthy''
              then ''The AI model identified the sample as ''
                   @ pred_class (hd (sort_by_confidence ps)) @ '' with ''
                   @ rounded_percent (hd (sort_by_confidence ps))
                   @ ''% confidence. No HAB indicators were found.''
              else ''Your custom model detected ''
                   @ pred_class (hd (sort_by_confidence ps)) @ '' with ''
                   @ rounded_percent (hd (sort_by_confidence ps))
                   @ ''% certainty. This indicates a high risk of HAB contamination.''),
           guidance =
             (if includes_str (toLowerCase (pred_class (hd (sort_by_confidence ps)))) ''healthy''
              then ''Sample appears normal. However, always stay updated with the latest BFAR Red Tide Bulletins before consumption.''
              else ''DO NOT CONSUME. Report this sample to the nearest BFAR or LLDA station immediately.''),
           timestamp = now,
           image = base64Image,
           location = Some ''Binangonan, Rizal'',
           primarySymptom = Some (toUpperCase (replace_hyphens (pred_class (hd (sort_by_confidence ps))))),
           boundingBoxes =
             Some (map (\<lambda>p. normalizeCoordinates p (or_one (image_width_of d)) (or_one (image_height_of d)))
                     (sort_by_confidence ps)) \<rparr>"
  using assms by (simp add: analyzeImage_def analyzeImage_try_def Let_def)

text \<open>\<open>includes_str s t\<close> is the test that \<open>t\<close> is a contiguous part of \<open>s\<close>.\<close>

lemma startsWith_iff: "startsWith s t \<longleftrightarrow> (\<exists>post. s = t @ post)"
  by (induction s t rule: startsWith.induct) auto

lemma includes_str_iff: "includes_str s t \<longleftrightarrow> (\<exists>pre post. s = pre @ t @ post)"
proof (induction s)
  case Nil
  then show ?case by auto
next
  case (Cons c s)
  show ?case
  proof
    assume "includes_str (c # s) t"
    then consider "startsWith (c # s) t" | "includes_str s t" by auto
    then show "\<exists>pre post. c # s = pre @ t @ post"
    proof cases
      case 1
      then obtain post where "c # s = t @ post" by (auto simp: startsWith_iff)
      then have "c # s = [] @ t @ post" by simp
      then show ?thesis by blast
    next
      case 2
      then obtain pre post where "s = pre @ t @ post" using Cons.IH by auto
      then have "c # s = (c # pre) @ t @ post" by simp
      then show ?thesis by blast
    qed
  next
    assume "\<exists>pre post. c # s = pre @ t @ post"
    then obtain pre post where e: "c # s = pre @ t @ post" by auto
    show "includes_str (c # s) t"
    proof (cases pre)
      case Nil
      then have "startsWith (c # s) t" using e by (auto simp: startsWith_iff)
      then show ?thesis by simp
    next
      case (Cons a pre')
      then have "s = pre' @ t @ post" using e by simp
      then have "includes_str s t" using Cons.IH by blast
      then show ?thesis by simp
    qed
  qed
qed

text \<open>
  \<open>analyzeImage\<close> fails with one error only, and a parsed body always gives a verdict,
  whose boxes are those of the sorted predictions.
\<close>

lemma analyzeImage_error_generic:
  "analyzeImage base64Image now outcome = Inl e \<Longrightarrow> e = detection_failed"
  by (auto simp: analyzeImage_def split: sum.splits)

lemma analyzeImage_boxes:
  assumes "ok r" "json r = Inr d"
  shows "\<exists>v. analyzeImage base64Image now (Resolved r) = Inr v
     \<and> location v \<noteq> None \<and> primarySymptom v \<noteq> None
     \<and> boundingBoxes v =
         Some (map (\<lambda>p. normalizeCoordinates p (or_one (image_width_of d)) (or_one (image_height_of d)))
                 (sort_by_confidence (case data_predictions d of None \<Rightarrow> [] | Some ps \<Rightarrow> ps)))"
proof (cases "data_predictions d")
  case None
  then show ?thesis
    using assms by (simp add: analyzeImage_def analyzeImage_try_def sort_by_confidence_def)
next
  case (Some ps)
  show ?thesis
  proof (cases "ps = []")
    case True
    then show ?thesis
      using assms Some by (simp add: analyzeImage_def analyzeImage_try_def sort_by_confidence_def)
  next
    case False
    then show ?thesis
      using analyzeImage_detections [OF assms Some False, of base64Image now] by (simp add: Some)
  qed
qed

lemma or_one_nonzero: "or_one v \<noteq> 0"
  by (simp add: or_one_def split: option.splits)

lemma analyzeImage_detections_fields:
  assumes "ok r" "json r = Inr d" "data_predictions d = Some ps" "ps \<noteq> []"
  shows "\<exists>v. analyzeImage base64Image now (Resolved r) = Inr v
     \<and> status v =
         (if includes_str (toLowerCase (pred_class (hd (sort_by_confidence ps)))) ''healthy''
          then Safe else Contaminated)
     \<and> confidence v = pred_confidence (hd (sort_by_confidence ps))
     \<and> primarySymptom v = Some (toUpperCase (replace_hyphens (pred_class (hd (sort_by_confidence ps)))))
     \<and> boundingBoxes v =
         Some (map (\<lambda>p. normalizeCoordinates p (or_one (image_width_of d)) (or_one (image_height_of d)))
                 (sort_by_confidence ps))"
  using analyzeImage_detections [OF assms, of base64Image now] by simp

text \<open>The case conversions on the class labels of the examples.\<close>

lemma lesion_lower: "toLowerCase ''lesion'' = ''lesion''"
  by code_simp

lemma lesion_symptom: "toUpperCase (replace_hyphens ''lesion'') = ''LESION''"
  by code_simp

lemma Healthy_lower: "toLowerCase ''Healthy'' = ''healthy''"
  by code_simp

lemma Healthy_symptom: "toUpperCase (replace_hyphens ''Healthy'') = ''HEALTHY''"
  by code_simp

lemma healthy_lower: "toLowerCase ''healthy'' = ''healthy''"
  by code_simp

lemma healthy_symptom: "toUpperCase (replace_hyphens ''healthy'') = ''HEALTHY''"
  by code_simp

text \<open>
  On a body of the documented shape \<open>analyzeImage_json\<close> is \<open>analyzeImage\<close>. It
  fails with the one fixed error only, and a verdict it returns has every field set.
\<close>

lemma insort_key_mapped:
  "insort_key f (g a) (map g ys) = map g (insort_key (\<lambda>a. f (g a)) a ys)"
  by (induction ys) simp_all

lemma sort_key_mapped:
  "sort_key f (map g xs) = map g (sort_key (\<lambda>a. f (g a)) xs)"
  by (induction xs) (simp_all add: insort_key_mapped)

lemma sort_entries_of_prediction:
  "sort_entries (map of_prediction ps) = map of_prediction (sort_by_confidence ps)"
  by (simp add: sort_entries_def sort_by_confidence_def sort_key_mapped of_prediction_def)

lemma entry_box_of_prediction: "entry_box (of_prediction p) = p"
  by (simp add: entry_box_def of_prediction_def)

lemma analyzeImage_json_try_of_outcome:
  "analyzeImage_json_try base64Image now (of_outcome outcome)
     = analyzeImage_try base64Image now outcome"
proof (cases outcome)
  case (Rejected e)
  then show ?thesis
    by (simp add: of_outcome_def analyzeImage_json_try_def analyzeImage_try_def)
next
  case (Resolved r)
  show ?thesis
  proof (cases "json r")
    case (Inl e)
    then show ?thesis
      using Resolved
      by (simp add: of_outcome_def of_response_def analyzeImage_json_try_def analyzeImage_try_def)
  next
    case (Inr d)
    show ?thesis
    proof (cases "data_predictions d")
      case None
      then show ?thesis
        using Resolved Inr
        by (simp add: of_outcome_def of_response_def analyzeImage_json_try_def
              analyzeImage_try_def image_width_of_def image_height_of_def)
    next
      case (Some ps)
      show ?thesis
      proof (cases "ps = []")
        case True
        then show ?thesis
          using Resolved Inr Some
          by (simp add: of_outcome_def of_response_def analyzeImage_json_try_def
                analyzeImage_try_def image_width_of_def image_height_of_def)
      next
        case False
        have ne: "sort_by_confidence ps \<noteq> []"
          using sort_by_confidence_length [of ps] False by (metis length_0_conv)
        have h: "hd (map of_prediction (sort_by_confidence ps))
                   = of_prediction (hd (sort_by_confidence ps))"
          using ne by (simp add: hd_map)
        have c: "entry_class (of_prediction q) = Some (pred_class q)"
            "entry_confidence (of_prediction q) = pred_confidence q" for q
          by (simp_all add: of_prediction_def)
        show ?thesis
          using Resolved Inr Some False
          by (simp add: of_outcome_def of_response_def analyzeImage_json_try_def
                analyzeImage_try_def image_width_of_def image_height_of_def Let_def
                sort_entries_of_prediction h c entry_box_of_prediction o_def)
      qed
    qed
  qed
qed

lemma analyzeImage_json_of_outcome:
  "analyzeImage_json base64Image now (of_outcome outcome) = analyzeImage base64Image now outcome"
  by (simp add: analyzeImage_json_def analyzeImage_def analyzeImage_json_try_of_outcome)




text \<open>
  An element without a class that is not the best prediction does not make the call
  fail.
\<close>

lemma analyzeImage_json_class_of_other_entry:
  "\<exists>v. analyzeImage_json ''data:image/jpeg;base64,AAAA'' ''11/02/26, 2:54 PM''
         (Json_resolved \<lparr> json_ok = True, json_statusText = ''OK'',
            json_parsed = Inr (Body (Entries
              [\<lparr> entry_x = 100, entry_y = 100, entry_width = 50, entry_height = 50,
                 entry_class = None, entry_confidence = 0.5 \<rparr>,
               \<lparr> entry_x = 400, entry_y = 300, entry_width = 200, entry_height = 100,
                 entry_class = Some ''lesion'', entry_confidence = 0.95 \<rparr>]) None) \<rparr>) = Inr v
       \<and> status v = Contaminated"
  by (simp add: analyzeImage_json_def analyzeImage_json_try_def sort_entries_def lesion_lower)

section \<open>The coordinate normalizer\<close>

text \<open>
  With image dimensions other than zero every bound is finite: the formula of the
  source, clamped.
\<close>

lemma normalizeCoordinates_nonzero:
  assumes "W \<noteq> 0" "H \<noteq> 0"
  shows "normalizeCoordinates p W H =
     \<lparr> ymin = Fin (max 0 (min 1000 ((pred_y p - pred_height p / 2) / H * 1000))),
       xmin = Fin (max 0 (min 1000 ((pred_x p - pred_width p / 2) / W * 1000))),
       ymax = Fin (max 0 (min 1000 ((pred_y p + pred_height p / 2) / H * 1000))),
       xmax = Fin (max 0 (min 1000 ((pred_x p + pred_width p / 2) / W * 1000))) \<rparr>"
  using assms by (simp add: normalizeCoordinates_def Let_def)

lemma clamp_mono:
  fixes W :: real
  assumes "0 < W" "a \<le> b"
  shows "max 0 (min 1000 (a / W * 1000)) \<le> max 0 (min 1000 (b / W * 1000))"
proof -
  have "a / W * 1000 \<le> b / W * 1000"
    using assms by (simp add: divide_right_mono)
  then show ?thesis by linarith
qed

text \<open>
  Claim C2. For a prediction with the centre \<open>(cx, cy)\<close> and the size \<open>(w, h)\<close>
  in pixels and image dimensions \<open>W, H > 0\<close> the normalizer computes
  \<open>(cx - w/2) / W * 1000\<close>, \<open>(cx + w/2) / W * 1000\<close>,
  \<open>(cy - h/2) / H * 1000\<close> and \<open>(cy + h/2) / H * 1000\<close> and clamps each into
  \<open>[0, 1000]\<close>, so every bound lies between 0 and 1000, also for a box that exceeds
  the image; and, the size being a size, \<open>w \<ge> 0\<close> and \<open>h \<ge> 0\<close>, the lower bound is
  at most the upper bound: \<open>0 \<le> ymin \<le> ymax \<le> 1000\<close> and
  \<open>0 \<le> xmin \<le> xmax \<le> 1000\<close>.
\<close>

theorem normalizeCoordinates_clamped_box:
  assumes "0 < W" "0 < H"
  shows "normalizeCoordinates p W H =
       \<lparr> ymin = Fin (max 0 (min 1000 ((pred_y p - pred_height p / 2) / H * 1000))),
         xmin = Fin (max 0 (min 1000 ((pred_x p - pred_width p / 2) / W * 1000))),
         ymax = Fin (max 0 (min 1000 ((pred_y p + pred_height p / 2) / H * 1000))),
         xmax = Fin (max 0 (min 1000 ((pred_x p + pred_width p / 2) / W * 1000))) \<rparr>
     \<and> js_le (Fin 0) (ymin (normalizeCoordinates p W H))
     \<and> js_le (ymin (normalizeCoordinates p W H)) (Fin 1000)
     \<and> js_le (Fin 0) (ymax (normalizeCoordinates p W H))
     \<and> js_le (ymax (normalizeCoordinates p W H)) (Fin 1000)
     \<and> js_le (Fin 0) (xmin (normalizeCoordinates p W H))
     \<and> js_le (xmin (normalizeCoordinates p W H)) (Fin 1000)
     \<and> js_le (Fin 0) (xmax (normalizeCoordinates p W H))
     \<and> js_le (xmax (normalizeCoordinates p W H)) (Fin 1000)
     \<and> (0 \<le> pred_height p \<longrightarrow>
          js_le (ymin (normalizeCoordinates p W H)) (ymax (normalizeCoordinates p W H)))
     \<and> (0 \<le> pred_width p \<longrightarrow>
          js_le (xmin (normalizeCoordinates p W H)) (xmax (normalizeCoordinates p W H)))"
proof -
  have eq: "normalizeCoordinates p W H =
       \<lparr> ymin = Fin (max 0 (min 1000 ((pred_y p - pred_height p / 2) / H * 1000))),
         xmin = Fin (max 0 (min 1000 ((pred_x p - pred_width p / 2) / W * 1000))),
         ymax = Fin (max 0 (min 1000 ((pred_y p + pred_height p / 2) / H * 1000))),
         xmax = Fin (max 0 (min 1000 ((pred_x p + pred_width p / 2) / W * 1000))) \<rparr>"
    using assms by (intro normalizeCoordinates_nonzero) auto
  have y: "0 \<le> pred_height p \<Longrightarrow>
      max 0 (min 1000 ((pred_y p - pred_height p / 2) / H * 1000))
        \<le> max 0 (min 1000 ((pred_y p + pred_height p / 2) / H * 1000))"
    using assms by (intro clamp_mono) auto
  have x: "0 \<le> pred_width p \<Longrightarrow>
      max 0 (min 1000 ((pred_x p - pred_width p / 2) / W * 1000))
        \<le> max 0 (min 1000 ((pred_x p + pred_width p / 2) / W * 1000))"
    using assms by (intro clamp_mono) auto
  show ?thesis
    unfolding eq using x y by simp
qed

text \<open>
  An instance: a 40 by 60 box centred at (90, 20) in a 100 by 200 image exceeds the
  image on the right and at the top, and is clamped there.
\<close>

theorem normalizeCoordinates_clamped_box_witness:
  "(0::real) < 100 \<and> (0::real) < 200 \<and> (0::real) \<le> 60 \<and> (0::real) \<le> 40
   \<and> normalizeCoordinates
        \<lparr> pred_x = 90, pred_y = 20, pred_width = 40, pred_height = 60,
          pred_class = ''lesion'', pred_confidence = 0.9 \<rparr> 100 200
      = \<lparr> ymin = Fin 0, xmin = Fin 700, ymax = Fin 250, xmax = Fin 1000 \<rparr>
   \<and> js_le (ymin (normalizeCoordinates
        \<lparr> pred_x = 90, pred_y = 20, pred_width = 40, pred_height = 60,
          pred_class = ''lesion'', pred_confidence = 0.9 \<rparr> 100 200))
        (ymax (normalizeCoordinates
        \<lparr> pred_x = 90, pred_y = 20, pred_width = 40, pred_height = 60,
          pred_class = ''lesion'', pred_confidence = 0.9 \<rparr> 100 200))
   \<and> js_le (xmin (normalizeCoordinates
        \<lparr> pred_x = 90, pred_y = 20, pred_width = 40, pred_height = 60,
          pred_class = ''lesion'', pred_confidence = 0.9 \<rparr> 100 200))
        (xmax (normalizeCoordinates
        \<lparr> pred_x = 90, pred_y = 20, pred_width = 40, pred_height = 60,
          pred_class = ''lesion'', pred_confidence = 0.9 \<rparr> 100 200))"
  using normalizeCoordinates_clamped_box [of 100 200
          "\<lparr> pred_x = 90, pred_y = 20, pred_width = 40, pred_height = 60,
             pred_class = ''lesion'', pred_confidence = 0.9 \<rparr>"]
  by simp

section \<open>The inference client\<close>

text \<open>
  Claim C3. A successful response whose prediction list is empty (or absent, which the
  code reads as empty) gives the verdict with status No Fish Detected, confidence 0, no
  bounding boxes, the primary symptom \<open>NONE\<close> and the fixed description and guidance.
\<close>

theorem analyzeImage_no_detections:
  assumes "ok r" "json r = Inr d"
    and "data_predictions d = None \<or> data_predictions d = Some []"
  shows "analyzeImage base64Image now (Resolved r) =
     Inr \<lparr> status = No_Fish_Detected,
           confidence = 0,
           description = ''No fish or HAB indicators were detected in the frame. Please ensure the sample is centered and well-lit.'',
           guidance = ''Please try scanning again. Position the fish clearly in the center of the frame.'',
           timestamp = now,
           image = base64Image,
           location = Some ''Binangonan, Rizal'',
           primarySymptom = Some ''NONE'',
           boundingBoxes = Some [] \<rparr>"
  using assms by (auto simp add: analyzeImage_def analyzeImage_try_def)

theorem analyzeImage_no_detections_witness:
  "analyzeImage ''data:image/jpeg;base64,AAAA'' ''11/02/26, 2:54 PM''
     (Resolved \<lparr> ok = True, statusText = ''OK'',
        json = Inr \<lparr> data_predictions = Some [],
                     data_image = Some \<lparr> image_width = Some 640, image_height = Some 480 \<rparr> \<rparr> \<rparr>) =
     Inr \<lparr> status = No_Fish_Detected,
           confidence = 0,
           description = ''No fish or HAB indicators were detected in the frame. Please ensure the sample is centered and well-lit.'',
           guidance = ''Please try scanning again. Position the fish clearly in the center of the frame.'',
           timestamp = ''11/02/26, 2:54 PM'',
           image = ''data:image/jpeg;base64,AAAA'',
           location = Some ''Binangonan, Rizal'',
           primarySymptom = Some ''NONE'',
           boundingBoxes = Some [] \<rparr>"
  using analyzeImage_no_detections
    [of "\<lparr> ok = True, statusText = ''OK'',
        json = Inr \<lparr> data_predictions = Some [],
                     data_image = Some \<lparr> image_width = Some 640, image_height = Some 480 \<rparr> \<rparr> \<rparr>"
        "\<lparr> data_predictions = Some [],
           data_image = Some \<lparr> image_width = Some 640, image_height = Some 480 \<rparr> \<rparr>"
        "''data:image/jpeg;base64,AAAA''" "''11/02/26, 2:54 PM''"]
  by simp

text \<open>
  Claim C4, as the code has it. For a response with a non-success status the error
  thrown inside \<open>analyzeImage\<close> carries the status text, but it is caught there,
  and \<open>analyzeImage\<close> fails with the fixed error \<open>Detection failed. Please check
  your Roboflow API configuration.\<close>; no verdict is constructed.
\<close>

theorem analyzeImage_non_success_status:
  assumes "\<not> ok r"
  shows "analyzeImage_try base64Image now (Resolved r)
           = Inl (Error (''Roboflow API error: '' @ statusText r))
     \<and> analyzeImage base64Image now (Resolved r)
           = Inl (Error ''Detection failed. Please check your Roboflow API configuration.'')
     \<and> (\<forall>v. analyzeImage base64Image now (Resolved r) \<noteq> Inr v)"
  using assms by (simp add: analyzeImage_def analyzeImage_try_def detection_failed_def)

theorem analyzeImage_non_success_status_witness:
  "\<not> ok \<lparr> ok = False, statusText = ''Forbidden'', json = Inl (Error ''Unexpected token'') \<rparr>
   \<and> analyzeImage_try ''data:image/jpeg;base64,AAAA'' ''11/02/26, 2:54 PM''
        (Resolved \<lparr> ok = False, statusText = ''Forbidden'', json = Inl (Error ''Unexpected token'') \<rparr>)
      = Inl (Error ''Roboflow API error: Forbidden'')
   \<and> analyzeImage ''data:image/jpeg;base64,AAAA'' ''11/02/26, 2:54 PM''
        (Resolved \<lparr> ok = False, statusText = ''Forbidden'', json = Inl (Error ''Unexpected token'') \<rparr>)
      = Inl (Error ''Detection failed. Please check your Roboflow API configuration.'')"
  using analyzeImage_non_success_status
    [of "\<lparr> ok = False, statusText = ''Forbidden'', json = Inl (Error ''Unexpected token'') \<rparr>"
        "''data:image/jpeg;base64,AAAA''" "''11/02/26, 2:54 PM''"]
  by simp

text \<open>
  The error that \<open>analyzeImage\<close> fails with does not carry the status text: for the
  status text \<open>Forbidden\<close> it is the fixed message, in which \<open>Forbidden\<close> does not
  occur.
\<close>

theorem analyzeImage_status_text_counterexample:
  "analyzeImage ''data:image/jpeg;base64,AAAA'' ''11/02/26, 2:54 PM''
      (Resolved \<lparr> ok = False, statusText = ''Forbidden'', json = Inl (Error ''Unexpected token'') \<rparr>)
     = Inl (Error ''Detection failed. Please check your Roboflow API configuration.'')
   \<and> \<not> includes_str ''Detection failed. Please check your Roboflow API configuration.'' ''Forbidden''"
  by (simp add: analyzeImage_def analyzeImage_try_def detection_failed_def)




text \<open>
  The guard is in \<open>analyzeImage\<close>, not in the normalizer: called with the dimensions
  0 and 0 and a prediction of zero size at the origin, \<open>normalizeCoordinates\<close> divides
  zero by zero and every bound is \<open>NaN\<close>.
\<close>

lemma normalizeCoordinates_unguarded:
  "normalizeCoordinates
     \<lparr> pred_x = 0, pred_y = 0, pred_width = 0, pred_height = 0,
       pred_class = ''lesion'', pred_confidence = 0.8 \<rparr> 0 0
   = \<lparr> ymin = NaN, xmin = NaN, ymax = NaN, xmax = NaN \<rparr>"
  by (simp add: normalizeCoordinates_def)

text \<open>
  Claim C6. When the width or the height of the image in the response is zero,
  \<open>analyzeImage\<close> takes the dimension as 1 (\<open>data.image?.width || 1\<close>) before it
  calls the normalizer, so no division by zero takes place and no bound of any bounding
  box of the verdict is \<open>NaN\<close>.
\<close>

theorem analyzeImage_zero_dimension_guarded:
  assumes "ok r" "json r = Inr d"
    and "image_width_of d = Some 0 \<or> image_height_of d = Some 0"
  shows "\<exists>v bs. analyzeImage base64Image now (Resolved r) = Inr v
     \<and> boundingBoxes v = Some bs
     \<and> bs = map (\<lambda>p. normalizeCoordinates p
                    (if image_width_of d = Some 0 then 1 else or_one (image_width_of d))
                    (if image_height_of d = Some 0 then 1 else or_one (image_height_of d)))
               (sort_by_confidence (case data_predictions d of None \<Rightarrow> [] | Some ps \<Rightarrow> ps))
     \<and> (\<forall>b \<in> set bs. ymin b \<noteq> NaN \<and> xmin b \<noteq> NaN \<and> ymax b \<noteq> NaN \<and> xmax b \<noteq> NaN)"
proof -
  let ?W = "or_one (image_width_of d)" and ?H = "or_one (image_height_of d)"
  let ?bs = "map (\<lambda>p. normalizeCoordinates p ?W ?H)
               (sort_by_confidence (case data_predictions d of None \<Rightarrow> [] | Some ps \<Rightarrow> ps))"
  obtain v where v: "analyzeImage base64Image now (Resolved r) = Inr v" "boundingBoxes v = Some ?bs"
    using analyzeImage_boxes [OF assms(1,2), of base64Image now] by auto
  have W: "(if image_width_of d = Some 0 then 1 else ?W) = ?W"
    by (simp add: or_one_def)
  have H: "(if image_height_of d = Some 0 then 1 else ?H) = ?H"
    by (simp add: or_one_def)
  have "\<forall>b \<in> set ?bs. ymin b \<noteq> NaN \<and> xmin b \<noteq> NaN \<and> ymax b \<noteq> NaN \<and> xmax b \<noteq> NaN"
    by (auto simp: normalizeCoordinates_nonzero [OF or_one_nonzero or_one_nonzero])
  then show ?thesis
    using v unfolding W H by blast
qed

theorem analyzeImage_zero_dimension_guarded_witness:
  "\<exists>v. analyzeImage ''data:image/jpeg;base64,AAAA'' ''11/02/26, 2:54 PM''
         (Resolved \<lparr> ok = True, statusText = ''OK'',
            json = Inr \<lparr> data_predictions =
                           Some [\<lparr> pred_x = 0, pred_y = 0, pred_width = 0, pred_height = 0,
                                   pred_class = ''lesion'', pred_confidence = 0.8 \<rparr>],
                         data_image = Some \<lparr> image_width = Some 0, image_height = Some 0 \<rparr> \<rparr> \<rparr>)
         = Inr v
       \<and> boundingBoxes v = Some [\<lparr> ymin = Fin 0, xmin = Fin 0, ymax = Fin 0, xmax = Fin 0 \<rparr>]"
proof -
  let ?p = "\<lparr> pred_x = 0, pred_y = 0, pred_width = 0, pred_height = 0,
              pred_class = ''lesion'', pred_confidence = 0.8 \<rparr>"
  let ?d = "\<lparr> data_predictions = Some [?p],
              data_image = Some \<lparr> image_width = Some 0, image_height = Some 0 \<rparr> \<rparr>"
  let ?r = "\<lparr> ok = True, statusText = ''OK'', json = Inr ?d \<rparr>"
  have "ok ?r" "json ?r = Inr ?d" "image_width_of ?d = Some 0 \<or> image_height_of ?d = Some 0"
    by (simp_all add: image_width_of_def)
  from analyzeImage_zero_dimension_guarded
         [OF this, of "''data:image/jpeg;base64,AAAA''" "''11/02/26, 2:54 PM''"]
  show ?thesis
    by (simp add: image_width_of_def image_height_of_def sort_by_confidence_def
          normalizeCoordinates_def)
qed

text \<open>
  Claim C1. For a non-empty prediction list the verdict is derived from the best
  prediction: the head of the list sorted by descending confidence, which is a received
  prediction of maximum confidence (the first such one in the received order). The
  verdict carries its confidence and its class label as primary symptom, and its status
  is Safe if the lower-cased class label includes \<open>healthy\<close> and Contaminated if not.
  For the list of \<open>healthy-fish\<close> at 0.9 and \<open>lesion\<close> at 0.95 the best
  prediction is the \<open>lesion\<close> entry and the status is Contaminated.
\<close>

theorem analyzeImage_best_prediction:
  "(ok r \<and> json r = Inr d \<and> data_predictions d = Some ps \<and> ps \<noteq> [] \<longrightarrow>
      (\<exists>v best. analyzeImage base64Image now (Resolved r) = Inr v
         \<and> best = hd (sort_by_confidence ps)
         \<and> best \<in> set ps
         \<and> (\<forall>p \<in> set ps. pred_confidence p \<le> pred_confidence best)
         \<and> best = hd (filter (\<lambda>p. pred_confidence p = pred_confidence best) ps)
         \<and> confidence v = pred_confidence best
         \<and> primarySymptom v = Some (toUpperCase (replace_hyphens (pred_class best)))
         \<and> status v =
             (if includes_str (toLowerCase (pred_class best)) ''healthy''
              then Safe else Contaminated)
         \<and> (status v = Safe \<or> status v = Contaminated)
         \<and> (status v = Safe) =
             (\<exists>pre post. toLowerCase (pred_class best) = pre @ ''healthy'' @ post)))
   \<and> (ok r \<and> json r = Inr d
        \<and> data_predictions d =
             Some [p\<lparr> pred_class := ''healthy-fish'', pred_confidence := 0.9 \<rparr>,
                   q\<lparr> pred_class := ''lesion'', pred_confidence := 0.95 \<rparr>] \<longrightarrow>
      (\<exists>v. analyzeImage base64Image now (Resolved r) = Inr v
         \<and> hd (sort_by_confidence
                 [p\<lparr> pred_class := ''healthy-fish'', pred_confidence := 0.9 \<rparr>,
                  q\<lparr> pred_class := ''lesion'', pred_confidence := 0.95 \<rparr>])
             = q\<lparr> pred_class := ''lesion'', pred_confidence := 0.95 \<rparr>
         \<and> confidence v = 0.95
         \<and> primarySymptom v = Some ''LESION''
         \<and> status v = Contaminated))"
proof (intro conjI impI)
  assume a: "ok r \<and> json r = Inr d \<and> data_predictions d = Some ps \<and> ps \<noteq> []"
  then have ne: "ps \<noteq> []" by simp
  let ?best = "hd (sort_by_confidence ps)"
  have c: "sort_by_confidence ps = ?best # tl (sort_by_confidence ps)"
    using ne by (rule sort_by_confidence_nonempty)
  obtain v where v: "analyzeImage base64Image now (Resolved r) = Inr v"
      "status v = (if includes_str (toLowerCase (pred_class ?best)) ''healthy''
                   then Safe else Contaminated)"
      "confidence v = pred_confidence ?best"
      "primarySymptom v = Some (toUpperCase (replace_hyphens (pred_class ?best)))"
    using analyzeImage_detections_fields [of r d ps base64Image now] a by auto
  have st1: "status v = Safe \<or> status v = Contaminated"
    using v(2) by simp
  have "(status v = Safe) = includes_str (toLowerCase (pred_class ?best)) ''healthy''"
    using v(2) by simp
  then have st2: "(status v = Safe) =
      (\<exists>pre post. toLowerCase (pred_class ?best) = pre @ ''healthy'' @ post)"
    by (simp only: includes_str_iff)
  have b: "?best \<in> set ps"
    "\<forall>p \<in> set ps. pred_confidence p \<le> pred_confidence ?best"
    "?best = hd (filter (\<lambda>p. pred_confidence p = pred_confidence ?best) ps)"
    using sort_by_confidence_Cons [OF c] by blast+
  show "\<exists>v best. analyzeImage base64Image now (Resolved r) = Inr v
         \<and> best = hd (sort_by_confidence ps)
         \<and> best \<in> set ps
         \<and> (\<forall>p \<in> set ps. pred_confidence p \<le> pred_confidence best)
         \<and> best = hd (filter (\<lambda>p. pred_confidence p = pred_confidence best) ps)
         \<and> confidence v = pred_confidence best
         \<and> primarySymptom v = Some (toUpperCase (replace_hyphens (pred_class best)))
         \<and> status v =
             (if includes_str (toLowerCase (pred_class best)) ''healthy''
              then Safe else Contaminated)
         \<and> (status v = Safe \<or> status v = Contaminated)
         \<and> (status v = Safe) =
             (\<exists>pre post. toLowerCase (pred_class best) = pre @ ''healthy'' @ post)"
    using v b st1 st2 by blast
next
  let ?lesion = "q\<lparr> pred_class := ''lesion'', pred_confidence := 0.95 \<rparr>"
  let ?ps = "[p\<lparr> pred_class := ''healthy-fish'', pred_confidence := 0.9 \<rparr>, ?lesion]"
  assume a: "ok r \<and> json r = Inr d \<and> data_predictions d = Some ?ps"
  have s: "hd (sort_by_confidence ?ps) = ?lesion"
    by (simp add: sort_by_confidence_def)
  have "ok r" "json r = Inr d" "data_predictions d = Some ?ps" "?ps \<noteq> []"
    using a by simp_all
  from analyzeImage_detections_fields [OF this, of base64Image now, unfolded s]
  obtain v where v: "analyzeImage base64Image now (Resolved r) = Inr v"
      "status v = (if includes_str (toLowerCase (pred_class ?lesion)) ''healthy''
                   then Safe else Contaminated)"
      "confidence v = pred_confidence ?lesion"
      "primarySymptom v = Some (toUpperCase (replace_hyphens (pred_class ?lesion)))"
    by blast
  have "confidence v = 0.95"
    using v(3) by simp
  moreover have "primarySymptom v = Some ''LESION''"
    using v(4) by (simp add: lesion_symptom)
  moreover have "status v = Contaminated"
    using v(2) by (simp add: lesion_lower)
  ultimately show "\<exists>v. analyzeImage base64Image now (Resolved r) = Inr v
         \<and> hd (sort_by_confidence ?ps) = ?lesion
         \<and> confidence v = 0.95
         \<and> primarySymptom v = Some ''LESION''
         \<and> status v = Contaminated"
    using v(1) s by blast
qed

theorem analyzeImage_best_prediction_witness:
  "(\<exists>v. analyzeImage ''data:image/jpeg;base64,AAAA'' ''11/02/26, 2:54 PM''
         (Resolved \<lparr> ok = True, statusText = ''OK'',
            json = Inr \<lparr> data_predictions =
                           Some [\<lparr> pred_x = 320, pred_y = 240, pred_width = 100, pred_height = 80,
                                   pred_class = ''Healthy'', pred_confidence = 0.8 \<rparr>],
                         data_image = Some \<lparr> image_width = Some 640, image_height = Some 480 \<rparr> \<rparr> \<rparr>)
         = Inr v
       \<and> confidence v = 0.8 \<and> primarySymptom v = Some ''HEALTHY'' \<and> status v = Safe)
   \<and> (\<exists>v. analyzeImage ''data:image/jpeg;base64,AAAA'' ''11/02/26, 2:54 PM''
         (Resolved \<lparr> ok = True, statusText = ''OK'',
            json = Inr \<lparr> data_predictions =
                           Some [\<lparr> pred_x = 100, pred_y = 100, pred_width = 50, pred_height = 50,
                                   pred_class = ''healthy-fish'', pred_confidence = 0.9 \<rparr>,
                                 \<lparr> pred_x = 400, pred_y = 300, pred_width = 200, pred_height = 100,
                                   pred_class = ''lesion'', pred_confidence = 0.95 \<rparr>],
                         data_image = Some \<lparr> image_width = Some 1000, image_height = Some 1000 \<rparr> \<rparr> \<rparr>)
         = Inr v
       \<and> confidence v = 0.95 \<and> primarySymptom v = Some ''LESION'' \<and> status v = Contaminated)"
proof
  let ?p = "\<lparr> pred_x = 320, pred_y = 240, pred_width = 100, pred_height = 80,
              pred_class = ''Healthy'', pred_confidence = 0.8 \<rparr>"
  let ?d = "\<lparr> data_predictions = Some [?p],
              data_image = Some \<lparr> image_width = Some 640, image_height = Some 480 \<rparr> \<rparr>"
  let ?r = "\<lparr> ok = True, statusText = ''OK'', json = Inr ?d \<rparr>"
  have "ok ?r \<and> json ?r = Inr ?d \<and> data_predictions ?d = Some [?p] \<and> [?p] \<noteq> []"
    by simp
  with analyzeImage_best_prediction
         [of ?r ?d "[?p]" "''data:image/jpeg;base64,AAAA''" "''11/02/26, 2:54 PM''", THEN conjunct1]
  obtain v best where v:
      "analyzeImage ''data:image/jpeg;base64,AAAA'' ''11/02/26, 2:54 PM'' (Resolved ?r) = Inr v"
      "best \<in> set [?p]"
      "confidence v = pred_confidence best"
      "primarySymptom v = Some (toUpperCase (replace_hyphens (pred_class best)))"
      "status v = (if includes_str (toLowerCase (pred_class best)) ''healthy''
                   then Safe else Contaminated)"
    by blast
  from v(2) have b: "best = ?p" by simp
  have "confidence v = 0.8"
    using v(3) by (simp add: b)
  moreover have "primarySymptom v = Some ''HEALTHY''"
    using v(4) by (simp add: b Healthy_symptom)
  moreover have "status v = Safe"
    using v(5) by (simp add: b Healthy_lower)
  ultimately show "\<exists>v. analyzeImage ''data:image/jpeg;base64,AAAA'' ''11/02/26, 2:54 PM''
         (Resolved ?r) = Inr v
       \<and> confidence v = 0.8 \<and> primarySymptom v = Some ''HEALTHY'' \<and> status v = Safe"
    using v(1) by blast
next
  let ?h = "\<lparr> pred_x = 100, pred_y = 100, pred_width = 50, pred_height = 50,
              pred_class = ''healthy-fish'', pred_confidence = 0.9 \<rparr>"
  let ?l = "\<lparr> pred_x = 400, pred_y = 300, pred_width = 200, pred_height = 100,
              pred_class = ''lesion'', pred_confidence = 0.95 \<rparr>"
  let ?d = "\<lparr> data_predictions = Some [?h, ?l],
              data_image = Some \<lparr> image_width = Some 1000, image_height = Some 1000 \<rparr> \<rparr>"
  let ?r = "\<lparr> ok = True, statusText = ''OK'', json = Inr ?d \<rparr>"
  have "ok ?r \<and> json ?r = Inr ?d
        \<and> data_predictions ?d =
             Some [?h\<lparr> pred_class := ''healthy-fish'', pred_confidence := 0.9 \<rparr>,
                   ?l\<lparr> pred_class := ''lesion'', pred_confidence := 0.95 \<rparr>]"
    by simp
  with analyzeImage_best_prediction
         [of ?r ?d _ "''data:image/jpeg;base64,AAAA''" "''11/02/26, 2:54 PM''" ?h ?l,
          THEN conjunct2]
  show "\<exists>v. analyzeImage ''data:image/jpeg;base64,AAAA'' ''11/02/26, 2:54 PM''
         (Resolved ?r) = Inr v
       \<and> confidence v = 0.95 \<and> primarySymptom v = Some ''LESION'' \<and> status v = Contaminated"
    by blast
qed

text \<open>
  Claim C10. For a non-empty prediction list the sort that picks the best prediction is
  in place, so the bounding boxes of the verdict are the boxes of the received
  predictions in non-increasing order of confidence, and the first bounding box, the
  one that \<open>getZoomStyle\<close> takes the zoom origin from, is the box of the best
  prediction.
\<close>

theorem analyzeImage_boxes_by_confidence:
  assumes "ok r" "json r = Inr d" "data_predictions d = Some ps" "ps \<noteq> []"
  shows "\<exists>v bs best. analyzeImage base64Image now (Resolved r) = Inr v
     \<and> boundingBoxes v = Some bs
     \<and> bs = map (\<lambda>p. normalizeCoordinates p (or_one (image_width_of d)) (or_one (image_height_of d)))
               (sort_by_confidence ps)
     \<and> mset (sort_by_confidence ps) = mset ps
     \<and> sorted_wrt (\<lambda>a b. pred_confidence b \<le> pred_confidence a) (sort_by_confidence ps)
     \<and> best = hd (sort_by_confidence ps)
     \<and> (\<forall>p \<in> set ps. pred_confidence p \<le> pred_confidence best)
     \<and> confidence v = pred_confidence best
     \<and> hd bs = normalizeCoordinates best (or_one (image_width_of d)) (or_one (image_height_of d))
     \<and> getZoomStyle v =
         (js_div (js_add (xmin (hd bs)) (xmax (hd bs))) (Fin 20),
          js_div (js_add (ymin (hd bs)) (ymax (hd bs))) (Fin 20))"
proof -
  let ?W = "or_one (image_width_of d)" and ?H = "or_one (image_height_of d)"
  let ?sorted = "sort_by_confidence ps"
  let ?best = "hd ?sorted"
  let ?bs = "map (\<lambda>p. normalizeCoordinates p ?W ?H) ?sorted"
  have c: "?sorted = ?best # tl ?sorted"
    using assms(4) by (rule sort_by_confidence_nonempty)
  obtain v where v: "analyzeImage base64Image now (Resolved r) = Inr v"
      "status v = (if includes_str (toLowerCase (pred_class ?best)) ''healthy''
                   then Safe else Contaminated)"
      "confidence v = pred_confidence ?best"
      "boundingBoxes v = Some ?bs"
    using analyzeImage_detections_fields [OF assms, of base64Image now] by auto
  have ne: "?sorted \<noteq> []"
    by (subst c) simp
  have hd: "hd ?bs = normalizeCoordinates ?best ?W ?H"
    using ne by (simp add: hd_map)
  obtain b rest where bs: "?bs = b # rest"
    using ne by (cases ?bs) auto
  have st: "status v \<noteq> No_Fish_Detected"
    using v(2) by simp
  have "getZoomStyle v =
         (js_div (js_add (xmin b) (xmax b)) (Fin 20),
          js_div (js_add (ymin b) (ymax b)) (Fin 20))"
    using st by (simp add: getZoomStyle_def v(4) bs)
  then have zoom: "getZoomStyle v =
         (js_div (js_add (xmin (hd ?bs)) (xmax (hd ?bs))) (Fin 20),
          js_div (js_add (ymin (hd ?bs)) (ymax (hd ?bs))) (Fin 20))"
    by (simp add: bs)
  have mx: "\<forall>p \<in> set ps. pred_confidence p \<le> pred_confidence ?best"
    using sort_by_confidence_Cons(2) [OF c] .
  show ?thesis
    using v(1,3,4) hd zoom mx sort_by_confidence_mset [of ps] sort_by_confidence_descending [of ps]
    by blast
qed

theorem analyzeImage_boxes_by_confidence_witness:
  "\<exists>v. analyzeImage ''data:image/jpeg;base64,AAAA'' ''11/02/26, 2:54 PM''
         (Resolved \<lparr> ok = True, statusText = ''OK'',
            json = Inr \<lparr> data_predictions =
                           Some [\<lparr> pred_x = 100, pred_y = 100, pred_width = 50, pred_height = 50,
                                   pred_class = ''healthy-fish'', pred_confidence = 0.9 \<rparr>,
                                 \<lparr> pred_x = 400, pred_y = 300, pred_width = 200, pred_height = 100,
                                   pred_class = ''lesion'', pred_confidence = 0.95 \<rparr>],
                         data_image = Some \<lparr> image_width = Some 1000, image_height = Some 1000 \<rparr> \<rparr> \<rparr>)
         = Inr v
       \<and> boundingBoxes v =
           Some [\<lparr> ymin = Fin 250, xmin = Fin 300, ymax = Fin 350, xmax = Fin 500 \<rparr>,
                 \<lparr> ymin = Fin 75, xmin = Fin 75, ymax = Fin 125, xmax = Fin 125 \<rparr>]
       \<and> confidence v = 0.95
       \<and> getZoomStyle v = (Fin 40, Fin 30)"
proof -
  let ?h = "\<lparr> pred_x = 100, pred_y = 100, pred_width = 50, pred_height = 50,
              pred_class = ''healthy-fish'', pred_confidence = 0.9 \<rparr>"
  let ?l = "\<lparr> pred_x = 400, pred_y = 300, pred_width = 200, pred_height = 100,
              pred_class = ''lesion'', pred_confidence = 0.95 \<rparr>"
  let ?d = "\<lparr> data_predictions = Some [?h, ?l],
              data_image = Some \<lparr> image_width = Some 1000, image_height = Some 1000 \<rparr> \<rparr>"
  let ?r = "\<lparr> ok = True, statusText = ''OK'', json = Inr ?d \<rparr>"
  have s: "sort_by_confidence [?h, ?l] = [?l, ?h]"
    by (simp add: sort_by_confidence_def)
  have W: "or_one (image_width_of ?d) = 1000" and H: "or_one (image_height_of ?d) = 1000"
    by (simp_all add: or_one_def image_width_of_def image_height_of_def)
  have "ok ?r" "json ?r = Inr ?d" "data_predictions ?d = Some [?h, ?l]" "[?h, ?l] \<noteq> []"
    by simp_all
  from analyzeImage_boxes_by_confidence [OF this, of "''data:image/jpeg;base64,AAAA''" "''11/02/26, 2:54 PM''", unfolded s W H]
  obtain v bs where v:
      "analyzeImage ''data:image/jpeg;base64,AAAA'' ''11/02/26, 2:54 PM'' (Resolved ?r) = Inr v"
      "boundingBoxes v = Some bs"
      "bs = map (\<lambda>p. normalizeCoordinates p 1000 1000) [?l, ?h]"
      "confidence v = pred_confidence (hd [?l, ?h])"
      "getZoomStyle v =
         (js_div (js_add (xmin (hd bs)) (xmax (hd bs))) (Fin 20),
          js_div (js_add (ymin (hd bs)) (ymax (hd bs))) (Fin 20))"
    by blast
  have bs: "bs = [\<lparr> ymin = Fin 250, xmin = Fin 300, ymax = Fin 350, xmax = Fin 500 \<rparr>,
                  \<lparr> ymin = Fin 75, xmin = Fin 75, ymax = Fin 125, xmax = Fin 125 \<rparr>]"
    unfolding v(3) by (simp add: normalizeCoordinates_def)
  have "boundingBoxes v =
           Some [\<lparr> ymin = Fin 250, xmin = Fin 300, ymax = Fin 350, xmax = Fin 500 \<rparr>,
                 \<lparr> ymin = Fin 75, xmin = Fin 75, ymax = Fin 125, xmax = Fin 125 \<rparr>]"
    using v(2) bs by simp
  moreover have "confidence v = 0.95"
    using v(4) by simp
  moreover have "getZoomStyle v = (Fin 40, Fin 30)"
    unfolding v(5) bs by simp
  ultimately show ?thesis
    using v(1) by blast
qed

section \<open>The application state machine\<close>

text \<open>
  Claim C7. When the inference fails while the application is in the Analyzing state,
  the application goes to the Error state and stores a message, the captured frame
  stays as it is, and no verdict is stored: the verdict is the one from before the
  capture. This holds for the step after the \<open>await\<close> from any Analyzing state, and
  for \<open>handleCapture\<close> as a whole, where the message is the fixed one of
  \<open>analyzeImage\<close>.
\<close>

theorem handleCapture_failure:
  "(app_status s1 = ANALYZING \<longrightarrow>
      app_status (handleCapture_finish (Inl err) s1) = ERROR
      \<and> app_error (handleCapture_finish (Inl err) s1) =
          Some (if message err = [] then ''An unexpected error occurred during analysis.''
                else message err)
      \<and> lastImg (handleCapture_finish (Inl err) s1) = lastImg s1
      \<and> app_result (handleCapture_finish (Inl err) s1) = app_result s1)
   \<and> (analyzeImage imageData now outcome = Inl e \<longrightarrow>
      app_status (handleCapture_start imageData s) = ANALYZING
      \<and> lastImg (handleCapture_start imageData s) = Some imageData
      \<and> app_result (handleCapture_start imageData s) = app_result s
      \<and> app_status (handleCapture imageData now outcome s) = ERROR
      \<and> app_error (handleCapture imageData now outcome s) =
          Some ''Detection failed. Please check your Roboflow API configuration.''
      \<and> lastImg (handleCapture imageData now outcome s) = Some imageData
      \<and> app_result (handleCapture imageData now outcome s) = app_result s)"
proof (intro conjI impI)
  assume a: "analyzeImage imageData now outcome = Inl e"
  then have e: "e = detection_failed"
    by (rule analyzeImage_error_generic)
  show "app_status (handleCapture imageData now outcome s) = ERROR"
    by (simp add: handleCapture_def a handleCapture_finish_def)
  show "app_error (handleCapture imageData now outcome s) =
          Some ''Detection failed. Please check your Roboflow API configuration.''"
    by (simp add: handleCapture_def a e handleCapture_finish_def detection_failed_def)
  show "lastImg (handleCapture imageData now outcome s) = Some imageData"
    by (simp add: handleCapture_def a handleCapture_finish_def handleCapture_start_def)
  show "app_result (handleCapture imageData now outcome s) = app_result s"
    by (simp add: handleCapture_def a handleCapture_finish_def handleCapture_start_def)
qed (simp_all add: handleCapture_finish_def handleCapture_start_def)

theorem handleCapture_failure_witness:
  "app_status (handleCapture_start ''data:image/jpeg;base64,AAAA'' initial_state) = ANALYZING
   \<and> analyzeImage ''data:image/jpeg;base64,AAAA'' ''11/02/26, 2:54 PM''
        (Rejected (Error ''Failed to fetch'')) = Inl detection_failed
   \<and> handleCapture ''data:image/jpeg;base64,AAAA'' ''11/02/26, 2:54 PM''
        (Rejected (Error ''Failed to fetch'')) initial_state
      = \<lparr> app_status = ERROR, app_result = None,
          app_error = Some ''Detection failed. Please check your Roboflow API configuration.'',
          lastImg = Some ''data:image/jpeg;base64,AAAA'', isFlashOn = False \<rparr>"
proof -
  have a: "analyzeImage ''data:image/jpeg;base64,AAAA'' ''11/02/26, 2:54 PM''
        (Rejected (Error ''Failed to fetch'')) = Inl detection_failed"
    by (simp add: analyzeImage_def analyzeImage_try_def)
  have b: "app_status (handleCapture_start ''data:image/jpeg;base64,AAAA'' initial_state) = ANALYZING"
    by (simp add: handleCapture_start_def)
  from handleCapture_failure [of "handleCapture_start ''data:image/jpeg;base64,AAAA'' initial_state"
             detection_failed "''data:image/jpeg;base64,AAAA''" "''11/02/26, 2:54 PM''"
             "Rejected (Error ''Failed to fetch'')" detection_failed initial_state] a b
  show ?thesis
    by (simp add: handleCapture_def handleCapture_finish_def handleCapture_start_def
          initial_state_def detection_failed_def)
qed

text \<open>
  Claim C8. From the Success or the Error state, \<open>resetDetection\<close> leads to Idle
  with the verdict and the error empty, as they are initially. The cycle from the
  initial state through a capture and a successful inference to Success and, by reset,
  back to Idle ends with the verdict and the error empty (in the initial state but for
  the last captured image, which is kept).
\<close>

theorem resetDetection_clears:
  "(app_status s = SUCCESS \<or> app_status s = ERROR \<longrightarrow>
      app_status (resetDetection s) = IDLE
      \<and> app_result (resetDetection s) = None
      \<and> app_error (resetDetection s) = None
      \<and> app_result (resetDetection s) = app_result initial_state
      \<and> app_error (resetDetection s) = app_error initial_state)
   \<and> (analyzeImage imageData now outcome = Inr v \<longrightarrow>
      app_status initial_state = IDLE
      \<and> app_status (handleCapture_start imageData initial_state) = ANALYZING
      \<and> app_status (handleCapture imageData now outcome initial_state) = SUCCESS
      \<and> app_result (handleCapture imageData now outcome initial_state) = Some v
      \<and> resetDetection (handleCapture imageData now outcome initial_state)
          = initial_state\<lparr> lastImg := Some imageData \<rparr>
      \<and> app_status (resetDetection (handleCapture imageData now outcome initial_state)) = IDLE
      \<and> app_result (resetDetection (handleCapture imageData now outcome initial_state)) = None
      \<and> app_error (resetDetection (handleCapture imageData now outcome initial_state)) = None)"
  by (simp add: resetDetection_def initial_state_def handleCapture_def handleCapture_start_def
        handleCapture_finish_def)

theorem resetDetection_clears_witness:
  "analyzeImage ''data:image/jpeg;base64,AAAA'' ''11/02/26, 2:54 PM''
     (Resolved \<lparr> ok = True, statusText = ''OK'',
        json = Inr \<lparr> data_predictions = Some [], data_image = None \<rparr> \<rparr>)
     = Inr \<lparr> status = No_Fish_Detected,
           confidence = 0,
           description = ''No fish or HAB indicators were detected in the frame. Please ensure the sample is centered and well-lit.'',
           guidance = ''Please try scanning again. Position the fish clearly in the center of the frame.'',
           timestamp = ''11/02/26, 2:54 PM'',
           image = ''data:image/jpeg;base64,AAAA'',
           location = Some ''Binangonan, Rizal'',
           primarySymptom = Some ''NONE'',
           boundingBoxes = Some [] \<rparr>
   \<and> app_status (handleCapture ''data:image/jpeg;base64,AAAA'' ''11/02/26, 2:54 PM''
        (Resolved \<lparr> ok = True, statusText = ''OK'',
           json = Inr \<lparr> data_predictions = Some [], data_image = None \<rparr> \<rparr>) initial_state) = SUCCESS
   \<and> resetDetection (handleCapture ''data:image/jpeg;base64,AAAA'' ''11/02/26, 2:54 PM''
        (Resolved \<lparr> ok = True, statusText = ''OK'',
           json = Inr \<lparr> data_predictions = Some [], data_image = None \<rparr> \<rparr>) initial_state)
      = \<lparr> app_status = IDLE, app_result = None, app_error = None,
          lastImg = Some ''data:image/jpeg;base64,AAAA'', isFlashOn = False \<rparr>"
proof -
  let ?out = "Resolved \<lparr> ok = True, statusText = ''OK'',
        json = Inr \<lparr> data_predictions = Some [], data_image = None \<rparr> \<rparr>"
  let ?v = "\<lparr> status = No_Fish_Detected,
           confidence = 0,
           description = ''No fish or HAB indicators were detected in the frame. Please ensure the sample is centered and well-lit.'',
           guidance = ''Please try scanning again. Position the fish clearly in the center of the frame.'',
           timestamp = ''11/02/26, 2:54 PM'',
           image = ''data:image/jpeg;base64,AAAA'',
           location = Some ''Binangonan, Rizal'',
           primarySymptom = Some ''NONE'',
           boundingBoxes = Some [] \<rparr>"
  let ?s = "handleCapture ''data:image/jpeg;base64,AAAA'' ''11/02/26, 2:54 PM'' ?out initial_state"
  have a: "analyzeImage ''data:image/jpeg;base64,AAAA'' ''11/02/26, 2:54 PM'' ?out = Inr ?v"
    by (simp add: analyzeImage_def analyzeImage_try_def)
  from resetDetection_clears
         [of ?s "''data:image/jpeg;base64,AAAA''" "''11/02/26, 2:54 PM''" ?out ?v] a
  have "app_status ?s = SUCCESS"
    and "resetDetection ?s = initial_state\<lparr> lastImg := Some ''data:image/jpeg;base64,AAAA'' \<rparr>"
    by simp_all
  then show ?thesis
    using a by (simp add: initial_state_def)
qed

section \<open>Formatting the confidence\<close>

text \<open>
  The two roundings at the confidence 0.823, and at every product close to 82.3, which
  covers the rounding error of the multiplication by 100 in double precision.
\<close>

lemma percent_of_0823:
  "Math_round (0.823 * 100) = 82"
  "toFixed1 (0.823 * 100) = ''82.3''"
  by (simp_all add: Math_round_def toFixed1_def toFixed1_abs_def nat_to_string.simps)

lemma percent_near_0823:
  fixes r :: real
  assumes "82.25 \<le> r" "r < 82.35"
  shows "Math_round r = 82" and "toFixed1 r = ''82.3''"
proof -
  have "82 \<le> r + 1 / 2" "r + 1 / 2 < 83"
    using assms by simp_all
  then show "Math_round r = 82"
    by (simp add: Math_round_def floor_eq_iff)
  have "823 \<le> r * 10 + 1 / 2" "r * 10 + 1 / 2 < 824"
    using assms by simp_all
  then have "\<lfloor>r * 10 + 1 / 2\<rfloor> = 823"
    by (simp add: floor_eq_iff)
  moreover have "\<not> r < 0"
    using assms by simp
  ultimately show "toFixed1 r = ''82.3''"
    by (simp add: toFixed1_def toFixed1_abs_def nat_to_string.simps)
qed

text \<open>
  Claim C9. For the confidence 0.823 the percentage in the description of the verdict
  is \<open>82%\<close> (\<open>Math.round\<close>), and the percentage that \<open>ResultDisplay\<close> shows and
  that the report of \<open>downloadReport\<close> contains is \<open>82.3%\<close>
  (\<open>toFixed(1)\<close>).
\<close>

theorem confidence_0823_formatting:
  "rounded_percent (p\<lparr> pred_confidence := 0.823 \<rparr>) = ''82''
   \<and> confidence_display (w\<lparr> confidence := 0.823 \<rparr>) = ''82.3%''
   \<and> (\<exists>v. analyzeImage ''data:image/jpeg;base64,AAAA'' ''11/02/26, 2:54 PM''
         (Resolved \<lparr> ok = True, statusText = ''OK'',
            json = Inr \<lparr> data_predictions =
                           Some [\<lparr> pred_x = 320, pred_y = 240, pred_width = 100, pred_height = 80,
                                   pred_class = ''healthy'', pred_confidence = 0.823 \<rparr>],
                         data_image = Some \<lparr> image_width = Some 640, image_height = Some 480 \<rparr> \<rparr> \<rparr>)
         = Inr v
       \<and> confidence v = 0.823
       \<and> description v =
           ''The AI model identified the sample as healthy with 82% confidence. No HAB indicators were found.''
       \<and> confidence_display v = ''82.3%''
       \<and> downloadReport \<lparr> app_status = SUCCESS, app_result = Some v, app_error = None,
                            lastImg = Some ''data:image/jpeg;base64,AAAA'', isFlashOn = False \<rparr>
           = Some ''LIYA - HAB DETECTION REPORT\<newline>==========================\<newline>Date/Time: 11/02/26, 2:54 PM\<newline>Location: Binangonan, Rizal\<newline>Overall Status: Safe\<newline>Confidence: 82.3%\<newline>\<newline>INDICATORS DETECTED:\<newline>- Primary Indicator: HEALTHY\<newline>- Description: The AI model identified the sample as healthy with 82% confidence. No HAB indicators were found.\<newline>\<newline>GUIDANCE:\<newline>- Sample appears normal. However, always stay updated with the latest BFAR Red Tide Bulletins before consumption.\<newline>\<newline>CONTACTS:\<newline>- LLDA: (02) 8376-4039\<newline>- BFAR: (049) 536-8200\<newline>=========================='')"
proof -
  let ?p = "\<lparr> pred_x = 320, pred_y = 240, pred_width = 100, pred_height = 80,
              pred_class = ''healthy'', pred_confidence = 0.823 \<rparr>"
  let ?d = "\<lparr> data_predictions = Some [?p],
              data_image = Some \<lparr> image_width = Some 640, image_height = Some 480 \<rparr> \<rparr>"
  let ?r = "\<lparr> ok = True, statusText = ''OK'', json = Inr ?d \<rparr>"
  have s: "hd (sort_by_confidence [?p]) = ?p"
    by (simp add: sort_by_confidence_def)
  have low: "toLowerCase (pred_class ?p) = ''healthy''"
    by (simp add: healthy_lower)
  have up: "toUpperCase (replace_hyphens (pred_class ?p)) = ''HEALTHY''"
    by (simp add: healthy_symptom)
  have cls: "pred_class ?p = ''healthy''"
    by simp
  have pc: "rounded_percent ?p = ''82''"
    by (simp add: rounded_percent_def Math_round_def int_to_string_def nat_to_string.simps)
  have "ok ?r" "json ?r = Inr ?d" "data_predictions ?d = Some [?p]" "[?p] \<noteq> []"
    by simp_all
  note f = analyzeImage_detections
         [OF this, of "''data:image/jpeg;base64,AAAA''" "''11/02/26, 2:54 PM''",
          unfolded s low up pc cls]
  obtain v where v:
      "analyzeImage ''data:image/jpeg;base64,AAAA'' ''11/02/26, 2:54 PM'' (Resolved ?r) = Inr v"
      "status v = Safe" "confidence v = 0.823"
      "description v =
         ''The AI model identified the sample as healthy with 82% confidence. No HAB indicators were found.''"
      "guidance v = ''Sample appears normal. However, always stay updated with the latest BFAR Red Tide Bulletins before consumption.''"
      "timestamp v = ''11/02/26, 2:54 PM''"
      "location v = Some ''Binangonan, Rizal''"
      "primarySymptom v = Some ''HEALTHY''"
    using f by (simp add: healthy_lower healthy_symptom)
  have disp: "confidence_display v = ''82.3%''"
    by (simp add: confidence_display_def v(3) toFixed1_def toFixed1_abs_def nat_to_string.simps)
  have tf: "toFixed1 (confidence v * 100) = ''82.3''"
    by (simp add: v(3) toFixed1_def toFixed1_abs_def nat_to_string.simps)
  have rep: "downloadReport \<lparr> app_status = SUCCESS, app_result = Some v, app_error = None,
                            lastImg = Some ''data:image/jpeg;base64,AAAA'', isFlashOn = False \<rparr>
           = Some ''LIYA - HAB DETECTION REPORT\<newline>==========================\<newline>Date/Time: 11/02/26, 2:54 PM\<newline>Location: Binangonan, Rizal\<newline>Overall Status: Safe\<newline>Confidence: 82.3%\<newline>\<newline>INDICATORS DETECTED:\<newline>- Primary Indicator: HEALTHY\<newline>- Description: The AI model identified the sample as healthy with 82% confidence. No HAB indicators were found.\<newline>\<newline>GUIDANCE:\<newline>- Sample appears normal. However, always stay updated with the latest BFAR Red Tide Bulletins before consumption.\<newline>\<newline>CONTACTS:\<newline>- LLDA: (02) 8376-4039\<newline>- BFAR: (049) 536-8200\<newline>==========================''"
    by (simp add: downloadReport_def optional_text_def tf v(2,4,5,6,7,8))
  have ex: "\<exists>v. analyzeImage ''data:image/jpeg;base64,AAAA'' ''11/02/26, 2:54 PM'' (Resolved ?r)
         = Inr v
       \<and> confidence v = 0.823
       \<and> description v =
           ''The AI model identified the sample as healthy with 82% confidence. No HAB indicators were found.''
       \<and> confidence_display v = ''82.3%''
       \<and> downloadReport \<lparr> app_status = SUCCESS, app_result = Some v, app_error = None,
                            lastImg = Some ''data:image/jpeg;base64,AAAA'', isFlashOn = False \<rparr>
           = Some ''LIYA - HAB DETECTION REPORT\<newline>==========================\<newline>Date/Time: 11/02/26, 2:54 PM\<newline>Location: Binangonan, Rizal\<newline>Overall Status: Safe\<newline>Confidence: 82.3%\<newline>\<newline>INDICATORS DETECTED:\<newline>- Primary Indicator: HEALTHY\<newline>- Description: The AI model identified the sample as healthy with 82% confidence. No HAB indicators were found.\<newline>\<newline>GUIDANCE:\<newline>- Sample appears normal. However, always stay updated with the latest BFAR Red Tide Bulletins before consumption.\<newline>\<newline>CONTACTS:\<newline>- LLDA: (02) 8376-4039\<newline>- BFAR: (049) 536-8200\<newline>==========================''"
    using v(1,3,4) disp rep by blast
  have gp: "rounded_percent (p\<lparr> pred_confidence := 0.823 \<rparr>) = ''82''"
    by (simp add: rounded_percent_def Math_round_def int_to_string_def nat_to_string.simps)
  have gd: "confidence_display (w\<lparr> confidence := 0.823 \<rparr>) = ''82.3%''"
    by (simp add: confidence_display_def toFixed1_def toFixed1_abs_def nat_to_string.simps)
  show ?thesis
    using gp gd ex by (intro conjI)
qed

end
